theory Spec2Isabelle
  imports Main
begin

section \<open>Values held by a board cell\<close>

text \<open>
  The component \<open>GlucoseMolecule2048\<close> of \<open>periodic-table-2048.tsx\<close> keeps a board of 16
  JavaScript values. A cell is \<open>null\<close> (empty) or one of the strings of \<open>ELEMENTS\<close>; a read
  past the end of an array yields \<open>undefined\<close>, which is a third kind of value and is
  not \<open>null\<close>.
\<close>

datatype cell = Null | Undefined | Str string

text \<open>\<open>const ELEMENTS = ['H', 'C', 'O']\<close>\<close>

definition ELEMENTS :: "cell list" where
  "ELEMENTS = [Str ''H'', Str ''C'', Str ''O'']"

section \<open>The array operations the component uses\<close>

text \<open>\<open>xs[i]\<close>: \<open>undefined\<close> out of range.\<close>

definition nthJS :: "cell list \<Rightarrow> nat \<Rightarrow> cell" where
  "nthJS xs i = (if i < length xs then xs ! i else Undefined)"

text \<open>\<open>xs.indexOf(x)\<close>: the first position of \<open>x\<close> under strict equality, or \<open>-1\<close>.\<close>

fun indexOf :: "cell list \<Rightarrow> cell \<Rightarrow> int" where
  "indexOf [] x = -1"
| "indexOf (y # ys) x =
     (if y = x then 0 else (let r = indexOf ys x in if r < 0 then -1 else r + 1))"

text \<open>\<open>xs.slice(s, e)\<close> for \<open>0 \<le> s \<le> e\<close>; both ends are clamped to the length.\<close>

definition slice :: "cell list \<Rightarrow> nat \<Rightarrow> nat \<Rightarrow> cell list" where
  "slice xs s e = take (e - s) (drop s xs)"

text \<open>
  \<open>xs.splice(start, deleteCount, ...items)\<close>, as the array it leaves behind: the start is
  clamped to the length and no more than the remaining elements are deleted.
\<close>

definition splice :: "cell list \<Rightarrow> nat \<Rightarrow> nat \<Rightarrow> cell list \<Rightarrow> cell list" where
  "splice xs start deleteCount items = take start xs @ items @ drop (start + deleteCount) xs"

text \<open>
  \<open>xs.some((val, idx) => val !== ys[idx])\<close>: some position of \<open>xs\<close> holds a value other
  than the one \<open>ys\<close> has there.
\<close>

definition someDiffers :: "cell list \<Rightarrow> cell list \<Rightarrow> bool" where
  "someDiffers xs ys = list_ex (\<lambda>idx. xs ! idx \<noteq> nthJS ys idx) [0..<length xs]"

section \<open>The board engine\<close>

text \<open>
  \<open>addRandomTile\<close> (lines 19-30). The indices of the empty cells are collected from left
  to right; \<open>Math.floor(Math.random() * emptySpots.length)\<close> is a position of that list,
  and any position can be drawn. The draw is the parameter \<open>rnd\<close>, reduced modulo the
  number of empty cells.
\<close>

definition emptySpots :: "cell list \<Rightarrow> nat list" where
  "emptySpots currentBoard =
     foldl (\<lambda>acc (val, idx). if val = Null then acc @ [idx] else acc) []
       (zip currentBoard [0..<length currentBoard])"

definition addRandomTile :: "nat \<Rightarrow> cell list \<Rightarrow> cell list" where
  "addRandomTile rnd currentBoard =
     (let spots = emptySpots currentBoard in
      if length spots > 0
      then (let randomSpot = spots ! (rnd mod length spots)
            in currentBoard[randomSpot := ELEMENTS ! 0])
      else currentBoard)"

text \<open>\<open>getNextElement\<close> (lines 45-48).\<close>

definition getNextElement :: "cell \<Rightarrow> cell" where
  "getNextElement currentElement =
     (let currentIndex = indexOf ELEMENTS currentElement in
      if currentIndex < int (length ELEMENTS) - 1
      then nthJS ELEMENTS (nat (currentIndex + 1))
      else Null)"

text \<open>
  \<open>rotateBoard\<close> (lines 50-62). One turn fills a fresh array of 16 \<open>null\<close>s, cell
  \<open>i * 4 + j\<close> from cell \<open>(3 - j) * 4 + i\<close> of the previous board.
\<close>

definition rotateOnce :: "cell list \<Rightarrow> cell list" where
  "rotateOnce rotatedBoard =
     fold (\<lambda>i newBoard.
             fold (\<lambda>j newBoard. newBoard[i * 4 + j := nthJS rotatedBoard ((3 - j) * 4 + i)])
               [0, 1, 2, 3] newBoard)
       [0, 1, 2, 3] (replicate 16 Null)"

fun rotateBoard :: "cell list \<Rightarrow> nat \<Rightarrow> cell list" where
  "rotateBoard b 0 = b"
| "rotateBoard b (Suc n) = rotateBoard (rotateOnce b) n"

text \<open>
  The merge loop of \<open>moveLeft\<close> (lines 73-79), over the compacted row, from index \<open>i\<close>:
  \<open>for (; i < currentRow.length - 1; i++)\<close>, the length being read again at every turn.
\<close>

function mergeLoop :: "nat \<Rightarrow> cell list \<Rightarrow> int \<Rightarrow> cell list \<times> int" where
  "mergeLoop i currentRow newScore =
     (if i + 1 < length currentRow
      then (if currentRow ! i = currentRow ! (i + 1)
            then (let e = getNextElement (currentRow ! i)
                  in mergeLoop (i + 1) (splice (currentRow[i := e]) (i + 1) 1 [])
                       (newScore + (indexOf ELEMENTS e + 1)))
            else mergeLoop (i + 1) currentRow newScore)
      else (currentRow, newScore))"
  by pat_completeness auto
termination
  by (relation "measure (\<lambda>(i, currentRow, newScore). length currentRow - i)")
     (auto simp: splice_def)

text \<open>\<open>while (currentRow.length < 4) currentRow.push(null)\<close> (lines 82-84).\<close>

function padRow :: "cell list \<Rightarrow> cell list" where
  "padRow currentRow =
     (if length currentRow < 4 then padRow (currentRow @ [Null]) else currentRow)"
  by pat_completeness auto
termination
  by (relation "measure (\<lambda>currentRow. 4 - length currentRow)") auto

text \<open>
  One turn of the loop over the rows (lines 68-91), on the pair of \<open>newBoard\<close> and
  \<open>newScore\<close> that the loop updates.
\<close>

definition moveLeftRow :: "nat \<Rightarrow> cell list \<times> int \<Rightarrow> cell list \<times> int" where
  "moveLeftRow row acc =
     (case acc of (newBoard, newScore) \<Rightarrow>
        (let compacted = filter (\<lambda>val. val \<noteq> Null) (slice newBoard (row * 4) (row * 4 + 4));
             originalLength = length compacted
         in case mergeLoop 0 compacted newScore of (merged, newScore') \<Rightarrow>
              (let currentRow = padRow merged
               in if length currentRow \<noteq> originalLength
                     \<or> someDiffers currentRow (slice newBoard (row * 4) (row * 4 + 4))
                  then (splice newBoard (row * 4) 4 currentRow, newScore')
                  else (newBoard, newScore'))))"

text \<open>
  \<open>moveLeft\<close> (lines 64-94). The source reads \<open>score\<close> from the component's state; here it
  is the first argument. The result is the pair \<open>{ newBoard, newScore }\<close>.
\<close>

definition moveLeft :: "int \<Rightarrow> cell list \<Rightarrow> cell list \<times> int" where
  "moveLeft score0 b = fold moveLeftRow [0, 1, 2, 3] (b, score0)"

section \<open>The move orchestrator\<close>

record game =
  board :: "cell list"
  score :: int
  gameOver :: bool

text \<open>\<open>initializeGame\<close> (lines 32-39), with the two draws of its two tiles.\<close>

definition initializeGame :: "nat \<Rightarrow> nat \<Rightarrow> game" where
  "initializeGame rnd1 rnd2 =
     \<lparr>board = addRandomTile rnd2 (addRandomTile rnd1 (replicate 16 Null)),
      score = 0, gameOver = False\<rparr>"

text \<open>
  Lines 99-112 of \<open>move\<close>: the board is turned (the \<open>switch\<close>, lines 99-105), moved
  left and turned back. The pair is \<open>finalBoard\<close> and \<open>newScore\<close>.
\<close>

definition rotatedBoard :: "string \<Rightarrow> cell list \<Rightarrow> cell list" where
  "rotatedBoard direction b =
     (if direction = ''ArrowRight'' then rotateBoard b 2
      else if direction = ''ArrowUp'' then rotateBoard b 1
      else if direction = ''ArrowDown'' then rotateBoard b 3
      else b)"

definition finalBoard :: "string \<Rightarrow> int \<Rightarrow> cell list \<Rightarrow> cell list \<times> int" where
  "finalBoard direction score0 b =
     (case moveLeft score0 (rotatedBoard direction b) of (movedBoard, newScore) \<Rightarrow>
        ((if direction = ''ArrowLeft'' then movedBoard
          else if direction = ''ArrowRight'' then rotateBoard movedBoard 2
          else if direction = ''ArrowUp'' then rotateBoard movedBoard 3
          else if direction = ''ArrowDown'' then rotateBoard movedBoard 1
          else b),
         newScore))"

text \<open>Lines 123-133 of \<open>move\<close>: the probe for a move that is still available.\<close>

definition availableMoves :: "int \<Rightarrow> cell list \<Rightarrow> bool" where
  "availableMoves score0 boardWithNewTile =
     list_ex (\<lambda>dir.
        case moveLeft score0
               (rotateBoard boardWithNewTile
                  (if dir = ''ArrowRight'' then 2
                   else if dir = ''ArrowUp'' then 1
                   else if dir = ''ArrowDown'' then 3 else 0))
        of (testBoard, _) \<Rightarrow> someDiffers testBoard boardWithNewTile)
       [''ArrowLeft'', ''ArrowRight'', ''ArrowUp'', ''ArrowDown'']"

text \<open>
  \<open>move\<close> (lines 96-139): the state after the handler has run, \<open>rnd\<close> being the draw of
  \<open>addRandomTile\<close>.
\<close>

definition move :: "string \<Rightarrow> nat \<Rightarrow> game \<Rightarrow> game" where
  "move direction rnd st =
     (if gameOver st then st
      else case finalBoard direction (score st) (board st) of (final, newScore) \<Rightarrow>
        (let boardChanged = someDiffers final (board st)
         in if boardChanged
            then (let boardWithNewTile = addRandomTile rnd final
                  in \<lparr>board = boardWithNewTile, score = newScore,
                      gameOver = (if \<not> availableMoves (score st) boardWithNewTile
                                  then True else gameOver st)\<rparr>)
            else st))"

text \<open>A sequence of key presses, each with its draw.\<close>

fun runMoves :: "(string \<times> nat) list \<Rightarrow> game \<Rightarrow> game" where
  "runMoves [] st = st"
| "runMoves ((direction, rnd) # ms) st = runMoves ms (move direction rnd st)"

section \<open>Counting tiles and merges\<close>

text \<open>The number of cells of a board that are not \<open>null\<close>.\<close>

definition countNonEmpty :: "cell list \<Rightarrow> nat" where
  "countNonEmpty b = length (filter (\<lambda>val. val \<noteq> Null) b)"

text \<open>
  The number of times the merge loop takes its branch (line 74 holds): the same loop as
  \<open>mergeLoop\<close>, returning the count in place of the row and the score.
\<close>

function mergeCount :: "nat \<Rightarrow> cell list \<Rightarrow> nat" where
  "mergeCount i currentRow =
     (if i + 1 < length currentRow
      then (if currentRow ! i = currentRow ! (i + 1)
            then (let e = getNextElement (currentRow ! i)
                  in 1 + mergeCount (i + 1) (splice (currentRow[i := e]) (i + 1) 1 []))
            else mergeCount (i + 1) currentRow)
      else 0)"
  by pat_completeness auto
termination
  by (relation "measure (\<lambda>(i, currentRow). length currentRow - i)")
     (auto simp: splice_def)

text \<open>The merges of one row of \<open>newBoard\<close>, and of the rows \<open>rows\<close> in turn, each on the
  board the rows before it have left.\<close>

definition rowMerges :: "cell list \<Rightarrow> nat \<Rightarrow> nat" where
  "rowMerges newBoard row =
     mergeCount 0 (filter (\<lambda>val. val \<noteq> Null) (slice newBoard (row * 4) (row * 4 + 4)))"

fun mergesFrom :: "nat list \<Rightarrow> cell list \<Rightarrow> nat" where
  "mergesFrom [] newBoard = 0"
| "mergesFrom (row # rows) newBoard =
     rowMerges newBoard row + mergesFrom rows (fst (moveLeftRow row (newBoard, 0)))"

text \<open>The merges of \<open>moveLeft\<close> on a board, and of the \<open>moveLeft\<close> that \<open>move\<close> runs.\<close>

definition moveLeftMerges :: "cell list \<Rightarrow> nat" where
  "moveLeftMerges b = mergesFrom [0, 1, 2, 3] b"

definition moveMerges :: "string \<Rightarrow> game \<Rightarrow> nat" where
  "moveMerges direction st =
     (if gameOver st then 0 else moveLeftMerges (rotatedBoard direction (board st)))"

section \<open>Basic facts\<close>

declare mergeLoop.simps [simp del] mergeCount.simps [simp del] padRow.simps [simp del]

lemma someDiffers_same: "someDiffers b b = False"
  by (simp add: someDiffers_def list_ex_iff nthJS_def)

subsection \<open>Rotation\<close>

lemma list16:
  assumes "length (b::cell list) = 16"
  obtains a0 a1 a2 a3 a4 a5 a6 a7 a8 a9 a10 a11 a12 a13 a14 a15
  where "b = [a0, a1, a2, a3, a4, a5, a6, a7, a8, a9, a10, a11, a12, a13, a14, a15]"
proof -
  from assms have "length b =
      Suc (Suc (Suc (Suc (Suc (Suc (Suc (Suc (Suc (Suc (Suc (Suc (Suc (Suc (Suc (Suc 0)))))))))))))))"
    by simp
  then show ?thesis
    using that by (auto simp: length_Suc_conv)
qed

lemma replicate16: "replicate 16 x = [x, x, x, x, x, x, x, x, x, x, x, x, x, x, x, x]"
  by (simp add: eval_nat_numeral)

text \<open>One turn is a quarter turn clockwise: the first column, read upwards, becomes the
  first row.\<close>

lemma rotateOnce_explicit:
  "rotateOnce [a0, a1, a2, a3, a4, a5, a6, a7, a8, a9, a10, a11, a12, a13, a14, a15]
   = [a12, a8, a4, a0, a13, a9, a5, a1, a14, a10, a6, a2, a15, a11, a7, a3]"
  by (simp add: rotateOnce_def nthJS_def replicate16)

lemma rotateBoard_numerals:
  "rotateBoard b 1 = rotateOnce b"
  "rotateBoard b 2 = rotateOnce (rotateOnce b)"
  "rotateBoard b 3 = rotateOnce (rotateOnce (rotateOnce b))"
  "rotateBoard b 4 = rotateOnce (rotateOnce (rotateOnce (rotateOnce b)))"
  by (simp_all add: eval_nat_numeral)

subsection \<open>Lengths\<close>

lemma length_rotateOnce: "length (rotateOnce b) = 16"
  by (simp add: rotateOnce_def)

lemma length_rotateBoard: "length b = 16 \<Longrightarrow> length (rotateBoard b n) = 16"
  by (induction n arbitrary: b) (simp_all add: length_rotateOnce)

lemma mergeLoop_length: "length (fst (mergeLoop i row s)) \<le> length row"
proof (induction i row s rule: mergeLoop.induct)
  case (1 i row s)
  show ?case
  proof (cases "i + 1 < length row")
    case False
    then show ?thesis by (simp add: mergeLoop.simps)
  next
    case inside: True
    show ?thesis
    proof (cases "row ! i = row ! (i + 1)")
      case True
      with inside 1(1) [OF inside True refl] show ?thesis
        by (subst mergeLoop.simps) (simp add: Let_def splice_def)
    next
      case False
      with inside 1(2) [OF inside False] show ?thesis
        by (subst mergeLoop.simps) simp
    qed
  qed
qed

lemma padRow_eq: "padRow r = r @ replicate (4 - length r) Null"
proof (induction r rule: padRow.induct)
  case (1 r)
  show ?case
  proof (cases "length r < 4")
    case True
    then have "4 - length r = Suc (4 - length (r @ [Null]))" by simp
    with True 1 show ?thesis
      by (subst padRow.simps) (simp add: replicate_app_Cons_same)
  next
    case False
    then show ?thesis by (simp add: padRow.simps)
  qed
qed

lemma length_padRow: "length r \<le> 4 \<Longrightarrow> length (padRow r) = 4"
  by (simp add: padRow_eq)

lemma length_compacted: "length (filter P (slice nb s (s + 4))) \<le> 4"
  by (rule order_trans [OF length_filter_le]) (simp add: slice_def)

lemma moveLeftRow_length:
  assumes "row < 4" "length nb = 16"
  shows "length (fst (moveLeftRow row (nb, s))) = 16"
proof -
  let ?c = "filter (\<lambda>val. val \<noteq> Null) (slice nb (row * 4) (row * 4 + 4))"
  have "length (fst (mergeLoop 0 ?c s)) \<le> 4"
    using mergeLoop_length [of 0 ?c s] length_compacted [of _ nb "row * 4"]
    by (rule order_trans)
  then have "length (padRow (fst (mergeLoop 0 ?c s))) = 4"
    by (rule length_padRow)
  with assms show ?thesis
    by (auto simp add: moveLeftRow_def Let_def splice_def split: prod.splits)
qed

lemma moveLeft_length:
  assumes "length b = 16"
  shows "length (fst (moveLeft s b)) = 16"
proof -
  have step: "\<And>row p. row < 4 \<Longrightarrow> length (fst p) = 16 \<Longrightarrow> length (fst (moveLeftRow row p)) = 16"
    using moveLeftRow_length by (metis prod.collapse)
  show ?thesis
    using assms by (simp add: moveLeft_def step)
qed

lemma addRandomTile_length: "length (addRandomTile rnd b) = length b"
  by (simp add: addRandomTile_def Let_def)

lemma finalBoard_length:
  assumes "length b = 16"
  shows "length (fst (finalBoard direction s b)) = 16"
proof -
  have "length (rotatedBoard direction b) = 16"
    using assms by (simp add: rotatedBoard_def length_rotateBoard length_rotateOnce)
  then have "length (fst (moveLeft s (rotatedBoard direction b))) = 16"
    by (rule moveLeft_length)
  with assms show ?thesis
    by (auto simp add: finalBoard_def case_prod_beta length_rotateBoard length_rotateOnce)
qed

lemma move_length:
  assumes "length (board st) = 16"
  shows "length (board (move direction rnd st)) = 16"
  using assms finalBoard_length [OF assms, of direction "score st"]
  by (simp add: move_def Let_def case_prod_beta addRandomTile_length)

lemma runMoves_length:
  "length (board st) = 16 \<Longrightarrow> length (board (runMoves ms st)) = 16"
  by (induction ms arbitrary: st) (auto simp add: move_length)

lemma initializeGame_length: "length (board (initializeGame rnd1 rnd2)) = 16"
  by (simp add: initializeGame_def addRandomTile_length)

subsection \<open>Scores\<close>

lemma indexOf_lower: "- 1 \<le> indexOf xs x"
  by (induction xs) (auto simp add: Let_def)

lemma mergeLoop_score_mono: "s \<le> snd (mergeLoop i row s)"
proof (induction i row s rule: mergeLoop.induct)
  case (1 i row s)
  show ?case
  proof (cases "i + 1 < length row")
    case False
    then show ?thesis by (simp add: mergeLoop.simps)
  next
    case inside: True
    show ?thesis
    proof (cases "row ! i = row ! (i + 1)")
      case True
      have "0 \<le> indexOf ELEMENTS (getNextElement (row ! i)) + 1"
        using indexOf_lower [of ELEMENTS "getNextElement (row ! i)"] by simp
      with inside True 1(1) [OF inside True refl] show ?thesis
        by (subst mergeLoop.simps) (simp add: Let_def)
    next
      case False
      with inside 1(2) [OF inside False] show ?thesis
        by (subst mergeLoop.simps) simp
    qed
  qed
qed

lemma mergeLoop_no_merge: "mergeCount i row = 0 \<Longrightarrow> snd (mergeLoop i row s) = s"
proof (induction i row s rule: mergeLoop.induct)
  case (1 i row s)
  show ?case
  proof (cases "i + 1 < length row")
    case False
    then show ?thesis by (simp add: mergeLoop.simps)
  next
    case inside: True
    show ?thesis
    proof (cases "row ! i = row ! (i + 1)")
      case True
      with inside 1(3) have False
        by (subst (asm) mergeCount.simps) (simp add: Let_def)
      then show ?thesis ..
    next
      case False
      with inside 1(3) have "mergeCount (i + 1) row = 0"
        by (subst (asm) mergeCount.simps) simp
      with inside False 1(2) [OF inside False] show ?thesis
        by (subst mergeLoop.simps) simp
    qed
  qed
qed

lemma mergeLoop_row_any_score: "fst (mergeLoop i row s) = fst (mergeLoop i row s')"
proof (induction i row s arbitrary: s' rule: mergeLoop.induct)
  case (1 i row s)
  show ?case
  proof (cases "i + 1 < length row")
    case False
    then show ?thesis by (simp add: mergeLoop.simps)
  next
    case inside: True
    show ?thesis
    proof (cases "row ! i = row ! (i + 1)")
      case True
      with inside 1(1) [OF inside True refl] show ?thesis
        by (subst (1 2) mergeLoop.simps) (simp add: Let_def)
    next
      case False
      with inside 1(2) [OF inside False] show ?thesis
        by (subst (1 2) mergeLoop.simps) simp
    qed
  qed
qed

lemma moveLeftRow_board_any_score:
  "fst (moveLeftRow row (nb, s)) = fst (moveLeftRow row (nb, s'))"
  using mergeLoop_row_any_score [of 0 _ s s']
  by (simp add: moveLeftRow_def Let_def case_prod_beta)

lemma moveLeftRow_snd:
  "snd (moveLeftRow row (nb, s))
     = snd (mergeLoop 0 (filter (\<lambda>val. val \<noteq> Null) (slice nb (row * 4) (row * 4 + 4))) s)"
  by (simp add: moveLeftRow_def Let_def case_prod_beta)

lemma rows_score_mono: "s \<le> snd (fold moveLeftRow rows (nb, s))"
proof (induction rows arbitrary: nb s)
  case Nil
  show ?case by simp
next
  case (Cons row rows)
  have "s \<le> snd (moveLeftRow row (nb, s))"
    by (simp add: moveLeftRow_snd mergeLoop_score_mono)
  also have "\<dots> \<le> snd (fold moveLeftRow rows (moveLeftRow row (nb, s)))"
    using Cons [of "snd (moveLeftRow row (nb, s))" "fst (moveLeftRow row (nb, s))"] by simp
  finally show ?case by simp
qed

lemma rows_no_merge:
  "mergesFrom rows nb = 0 \<Longrightarrow> snd (fold moveLeftRow rows (nb, s)) = s"
proof (induction rows arbitrary: nb s)
  case Nil
  show ?case by simp
next
  case (Cons row rows)
  from Cons.prems have r: "rowMerges nb row = 0"
    and rest: "mergesFrom rows (fst (moveLeftRow row (nb, 0))) = 0"
    by simp_all
  have same: "snd (moveLeftRow row (nb, s)) = s"
    using r by (simp add: moveLeftRow_snd rowMerges_def mergeLoop_no_merge)
  have "fst (moveLeftRow row (nb, s)) = fst (moveLeftRow row (nb, 0))"
    by (rule moveLeftRow_board_any_score)
  with rest have "mergesFrom rows (fst (moveLeftRow row (nb, s))) = 0" by simp
  then have "snd (fold moveLeftRow rows (fst (moveLeftRow row (nb, s)), s)) = s"
    by (rule Cons.IH)
  moreover have "moveLeftRow row (nb, s) = (fst (moveLeftRow row (nb, s)), s)"
    by (simp add: prod_eq_iff same)
  ultimately have "snd (fold moveLeftRow rows (moveLeftRow row (nb, s))) = s"
    by metis
  then show ?case by simp
qed

lemma moveLeft_score_mono: "s \<le> snd (moveLeft s b)"
  unfolding moveLeft_def by (rule rows_score_mono)

lemma moveLeft_no_merge: "moveLeftMerges b = 0 \<Longrightarrow> snd (moveLeft s b) = s"
  unfolding moveLeft_def moveLeftMerges_def by (rule rows_no_merge)

lemma finalBoard_snd: "snd (finalBoard direction s b) = snd (moveLeft s (rotatedBoard direction b))"
  by (simp add: finalBoard_def case_prod_beta)

lemma move_score_cases:
  "score (move direction rnd st) = score st \<or>
   (\<not> gameOver st \<and> score (move direction rnd st) = snd (finalBoard direction (score st) (board st)))"
  by (simp add: move_def Let_def case_prod_beta)

lemma move_score_mono: "score st \<le> score (move direction rnd st)"
  using move_score_cases [of direction rnd st]
    moveLeft_score_mono [of "score st" "rotatedBoard direction (board st)"]
  by (auto simp add: finalBoard_snd)

lemma move_score_needs_merge:
  assumes "score st < score (move direction rnd st)"
  shows "0 < moveMerges direction st"
proof (rule ccontr)
  assume "\<not> 0 < moveMerges direction st"
  then have none: "moveMerges direction st = 0" by simp
  from assms move_score_cases [of direction rnd st]
  have live: "\<not> gameOver st"
    and new: "score (move direction rnd st) = snd (moveLeft (score st) (rotatedBoard direction (board st)))"
    by (auto simp add: finalBoard_snd)
  from none live have "moveLeftMerges (rotatedBoard direction (board st)) = 0"
    by (simp add: moveMerges_def)
  then have "snd (moveLeft (score st) (rotatedBoard direction (board st))) = score st"
    by (rule moveLeft_no_merge)
  with new assms show False by simp
qed

lemma runMoves_score_mono: "score st \<le> score (runMoves ms st)"
proof (induction ms arbitrary: st)
  case Nil
  show ?case by simp
next
  case (Cons m ms)
  obtain direction rnd where m: "m = (direction, rnd)" by (cases m)
  have "score st \<le> score (move direction rnd st)" by (rule move_score_mono)
  also have "\<dots> \<le> score (runMoves ms (move direction rnd st))" by (rule Cons.IH)
  finally show ?case by (simp add: m)
qed

section \<open>The next element\<close>

text \<open>
  C10. For every value that is not one of the progression's elements \<open>'H'\<close>, \<open>'C'\<close>, \<open>'O'\<close>
  (the empty cell \<open>null\<close> among them), \<open>getNextElement\<close> returns \<open>'H'\<close>, the first element
  of the progression, and not \<open>null\<close>: \<open>indexOf\<close> is \<open>-1\<close> there, which is below
  \<open>ELEMENTS.length - 1\<close>.
\<close>

theorem getNextElement_outside_progression:
  "x \<notin> {Str ''H'', Str ''C'', Str ''O''} \<Longrightarrow>
     getNextElement x = ELEMENTS ! 0 \<and> ELEMENTS ! 0 = Str ''H''"
  by (auto simp add: getNextElement_def ELEMENTS_def nthJS_def Let_def)

theorem getNextElement_outside_progression_witness:
  "Null \<notin> {Str ''H'', Str ''C'', Str ''O''} \<and> getNextElement Null = Str ''H'' \<and>
   Str ''He'' \<notin> {Str ''H'', Str ''C'', Str ''O''} \<and> getNextElement (Str ''He'') = Str ''H''"
  using getNextElement_outside_progression [of Null]
    getNextElement_outside_progression [of "Str ''He''"]
  by simp

section \<open>Moves that change nothing\<close>

text \<open>
  C9. A direction other than the four keys \<open>'ArrowLeft'\<close>, \<open>'ArrowRight'\<close>, \<open>'ArrowUp'\<close>,
  \<open>'ArrowDown'\<close> leaves the state as it is: board, score and game-over flag are unchanged
  and no tile is spawned. The handler has no failing path, so the model is a total
  function and the result is a state.
\<close>

theorem move_unrecognised_direction:
  "direction \<notin> {''ArrowLeft'', ''ArrowRight'', ''ArrowUp'', ''ArrowDown''} \<Longrightarrow>
     move direction rnd st = st"
  by (simp add: move_def finalBoard_def someDiffers_same split: prod.splits)

theorem move_unrecognised_direction_witness:
  "''Enter'' \<notin> {''ArrowLeft'', ''ArrowRight'', ''ArrowUp'', ''ArrowDown''} \<and>
   move ''Enter'' 5
     \<lparr>board = [Str ''H'', Str ''H'', Null, Null] @ replicate 12 Null, score = 7,
      gameOver = False\<rparr>
   = \<lparr>board = [Str ''H'', Str ''H'', Null, Null] @ replicate 12 Null, score = 7,
      gameOver = False\<rparr>"
  using move_unrecognised_direction [of "''Enter''" 5
    "\<lparr>board = [Str ''H'', Str ''H'', Null, Null] @ replicate 12 Null, score = 7,
      gameOver = False\<rparr>"]
  by simp

text \<open>
  C4. When the board that comes back from turning, moving left and turning back is the
  board before the move, \<open>move\<close> returns the state it was given: same board, same score,
  same game-over flag; no tile is spawned and the probe of line 123 is not reached.
\<close>

theorem move_rejected_is_noop:
  "fst (finalBoard direction (score st) (board st)) = board st \<Longrightarrow>
     move direction rnd st = st"
  by (auto simp add: move_def someDiffers_same split: prod.splits)

theorem move_rejected_is_noop_witness:
  "fst (finalBoard ''ArrowLeft'' 3 ([Str ''H'', Str ''C'', Null, Null] @ replicate 12 Null))
     = [Str ''H'', Str ''C'', Null, Null] @ replicate 12 Null \<and>
   move ''ArrowLeft'' 9
     \<lparr>board = [Str ''H'', Str ''C'', Null, Null] @ replicate 12 Null, score = 3,
      gameOver = False\<rparr>
   = \<lparr>board = [Str ''H'', Str ''C'', Null, Null] @ replicate 12 Null, score = 3,
      gameOver = False\<rparr>"
proof -
  have h: "fst (finalBoard ''ArrowLeft'' 3
             ([Str ''H'', Str ''C'', Null, Null] @ replicate 12 Null))
           = [Str ''H'', Str ''C'', Null, Null] @ replicate 12 Null"
    by code_simp
  show ?thesis
    using h move_rejected_is_noop [of "''ArrowLeft''"
      "\<lparr>board = [Str ''H'', Str ''C'', Null, Null] @ replicate 12 Null, score = 3,
        gameOver = False\<rparr>" 9]
    by simp
qed

section \<open>Merging a row\<close>

text \<open>
  C5. On a row \<open>[H, H, H, null]\<close> the row's turn of \<open>moveLeft\<close> writes \<open>[C, H, null, null]\<close>
  in its place and adds exactly 2 to the score, whichever row of whichever board it is:
  the leftmost pair merges, and the new \<open>C\<close> is not merged again with the \<open>H\<close> behind it.
  So \<open>moveLeft\<close> on the board that has this first row and is empty elsewhere returns the
  board with first row \<open>[C, H, null, null]\<close> and the score plus 2.
\<close>

theorem moveLeft_three_H:
  "(slice newBoard (row * 4) (row * 4 + 4) = [Str ''H'', Str ''H'', Str ''H'', Null] \<longrightarrow>
      moveLeftRow row (newBoard, sc)
        = (splice newBoard (row * 4) 4 [Str ''C'', Str ''H'', Null, Null], sc + 2)) \<and>
   moveLeft sc ([Str ''H'', Str ''H'', Str ''H'', Null] @ replicate 12 Null)
     = ([Str ''C'', Str ''H'', Null, Null] @ replicate 12 Null, sc + 2)"
  by (simp add: moveLeft_def moveLeftRow_def slice_def splice_def someDiffers_def nthJS_def
      mergeLoop.simps padRow.simps getNextElement_def ELEMENTS_def Let_def eval_nat_numeral)

theorem moveLeft_three_H_witness:
  "slice ([Str ''C'', Null, Null, Null, Str ''H'', Str ''H'', Str ''H'', Null] @ replicate 8 Null)
     (1 * 4) (1 * 4 + 4)
     = [Str ''H'', Str ''H'', Str ''H'', Null] \<and>
   moveLeftRow 1
     ([Str ''C'', Null, Null, Null, Str ''H'', Str ''H'', Str ''H'', Null] @ replicate 8 Null, 5)
     = ([Str ''C'', Null, Null, Null, Str ''C'', Str ''H'', Null, Null] @ replicate 8 Null, 7)"
proof -
  let ?b = "[Str ''C'', Null, Null, Null, Str ''H'', Str ''H'', Str ''H'', Null] @ replicate 8 Null"
  have h: "slice ?b (1 * 4) (1 * 4 + 4) = [Str ''H'', Str ''H'', Str ''H'', Null]"
    by (simp add: slice_def)
  have s: "splice ?b (1 * 4) 4 [Str ''C'', Str ''H'', Null, Null]
           = [Str ''C'', Null, Null, Null, Str ''C'', Str ''H'', Null, Null] @ replicate 8 Null"
    by (simp add: splice_def)
  show ?thesis
    using h s moveLeft_three_H [of ?b 1 5] by simp
qed

text \<open>
  C2. Two equal tiles of the last element, \<open>[O, O, null, null]\<close>, are taken as a pair like
  any other: \<open>getNextElement\<close> answers \<open>null\<close> for \<open>'O'\<close>, the loop stores that \<open>null\<close> in
  the first cell and removes the second, so both tiles leave the board. The score is
  unchanged, since \<open>indexOf(null) + 1\<close> is 0.
\<close>

theorem moveLeft_two_O_vanish:
  "getNextElement (Str ''O'') = Null \<and>
   moveLeft sc ([Str ''O'', Str ''O'', Null, Null] @ replicate 12 Null)
     = (replicate 16 Null, sc)"
  by (simp add: moveLeft_def moveLeftRow_def slice_def splice_def someDiffers_def nthJS_def
      mergeLoop.simps padRow.simps getNextElement_def ELEMENTS_def Let_def eval_nat_numeral)

section \<open>Counting tiles across a move\<close>

text \<open>
  C3. The move to the left on the board whose only tiles are two \<open>O\<close>s side by side
  changes the board and performs one merge; 2 cells are occupied before it and 1 after
  it (the spawned \<open>H\<close>), not \<open>2 - 1 + 1\<close>.
\<close>

theorem move_two_O_tile_count:
  "someDiffers
     (fst (finalBoard ''ArrowLeft'' 0 ([Str ''O'', Str ''O'', Null, Null] @ replicate 12 Null)))
     ([Str ''O'', Str ''O'', Null, Null] @ replicate 12 Null) \<and>
   countNonEmpty ([Str ''O'', Str ''O'', Null, Null] @ replicate 12 Null) = 2 \<and>
   moveMerges ''ArrowLeft''
     \<lparr>board = [Str ''O'', Str ''O'', Null, Null] @ replicate 12 Null, score = 0,
      gameOver = False\<rparr> = 1 \<and>
   countNonEmpty (board (move ''ArrowLeft'' 0
     \<lparr>board = [Str ''O'', Str ''O'', Null, Null] @ replicate 12 Null, score = 0,
      gameOver = False\<rparr>)) = 1"
  by code_simp

section \<open>The game-over probe\<close>

text \<open>
  C1. The move to the left on the board below is accepted and leaves a full board on
  which each of the four directions, turned, moved left and turned back, gives the same
  board again. The probe of lines 123-133 compares the moved board of each direction
  with the board before it is turned back, finds a difference for \<open>'ArrowUp'\<close>, and the
  game-over flag stays false.
\<close>

theorem move_stuck_board_not_gameOver:
  "move ''ArrowLeft'' 0
     \<lparr>board = [Null, Str ''C'', Str ''H'', Str ''C'',
               Str ''H'', Str ''C'', Str ''H'', Str ''C'',
               Str ''C'', Str ''H'', Str ''C'', Str ''H'',
               Str ''H'', Str ''C'', Str ''H'', Str ''C''], score = 0, gameOver = False\<rparr>
   = \<lparr>board = [Str ''C'', Str ''H'', Str ''C'', Str ''H'',
               Str ''H'', Str ''C'', Str ''H'', Str ''C'',
               Str ''C'', Str ''H'', Str ''C'', Str ''H'',
               Str ''H'', Str ''C'', Str ''H'', Str ''C''], score = 0, gameOver = False\<rparr> \<and>
   fst (finalBoard ''ArrowLeft'' 0
          [Str ''C'', Str ''H'', Str ''C'', Str ''H'', Str ''H'', Str ''C'', Str ''H'', Str ''C'',
           Str ''C'', Str ''H'', Str ''C'', Str ''H'', Str ''H'', Str ''C'', Str ''H'', Str ''C''])
     = [Str ''C'', Str ''H'', Str ''C'', Str ''H'', Str ''H'', Str ''C'', Str ''H'', Str ''C'',
        Str ''C'', Str ''H'', Str ''C'', Str ''H'', Str ''H'', Str ''C'', Str ''H'', Str ''C''] \<and>
   fst (finalBoard ''ArrowRight'' 0
          [Str ''C'', Str ''H'', Str ''C'', Str ''H'', Str ''H'', Str ''C'', Str ''H'', Str ''C'',
           Str ''C'', Str ''H'', Str ''C'', Str ''H'', Str ''H'', Str ''C'', Str ''H'', Str ''C''])
     = [Str ''C'', Str ''H'', Str ''C'', Str ''H'', Str ''H'', Str ''C'', Str ''H'', Str ''C'',
        Str ''C'', Str ''H'', Str ''C'', Str ''H'', Str ''H'', Str ''C'', Str ''H'', Str ''C''] \<and>
   fst (finalBoard ''ArrowUp'' 0
          [Str ''C'', Str ''H'', Str ''C'', Str ''H'', Str ''H'', Str ''C'', Str ''H'', Str ''C'',
           Str ''C'', Str ''H'', Str ''C'', Str ''H'', Str ''H'', Str ''C'', Str ''H'', Str ''C''])
     = [Str ''C'', Str ''H'', Str ''C'', Str ''H'', Str ''H'', Str ''C'', Str ''H'', Str ''C'',
        Str ''C'', Str ''H'', Str ''C'', Str ''H'', Str ''H'', Str ''C'', Str ''H'', Str ''C''] \<and>
   fst (finalBoard ''ArrowDown'' 0
          [Str ''C'', Str ''H'', Str ''C'', Str ''H'', Str ''H'', Str ''C'', Str ''H'', Str ''C'',
           Str ''C'', Str ''H'', Str ''C'', Str ''H'', Str ''H'', Str ''C'', Str ''H'', Str ''C''])
     = [Str ''C'', Str ''H'', Str ''C'', Str ''H'', Str ''H'', Str ''C'', Str ''H'', Str ''C'',
        Str ''C'', Str ''H'', Str ''C'', Str ''H'', Str ''H'', Str ''C'', Str ''H'', Str ''C'']"
  by code_simp

section \<open>Rotation is a full circle\<close>

text \<open>
  C7. For every board \<open>B\<close> of 16 cells, \<open>rotateBoard(rotateBoard(B, 1), 3)\<close> is \<open>B\<close> and
  \<open>rotateBoard(B, 4)\<close> is \<open>B\<close>: four quarter turns are the identity.
\<close>

theorem rotateBoard_full_circle:
  "length b = 16 \<Longrightarrow> rotateBoard (rotateBoard b 1) 3 = b \<and> rotateBoard b 4 = b"
  by (erule list16) (simp add: rotateBoard_numerals rotateOnce_explicit)

theorem rotateBoard_full_circle_witness:
  "length [Str ''H'', Null, Str ''C'', Null, Null, Str ''O'', Null, Null,
           Str ''H'', Str ''H'', Null, Null, Null, Null, Null, Str ''C''] = 16 \<and>
   rotateBoard (rotateBoard
       [Str ''H'', Null, Str ''C'', Null, Null, Str ''O'', Null, Null,
        Str ''H'', Str ''H'', Null, Null, Null, Null, Null, Str ''C''] 1) 3
     = [Str ''H'', Null, Str ''C'', Null, Null, Str ''O'', Null, Null,
        Str ''H'', Str ''H'', Null, Null, Null, Null, Null, Str ''C''] \<and>
   rotateBoard
       [Str ''H'', Null, Str ''C'', Null, Null, Str ''O'', Null, Null,
        Str ''H'', Str ''H'', Null, Null, Null, Null, Null, Str ''C''] 4
     = [Str ''H'', Null, Str ''C'', Null, Null, Str ''O'', Null, Null,
        Str ''H'', Str ''H'', Null, Null, Null, Null, Null, Str ''C'']"
  using rotateBoard_full_circle
    [of "[Str ''H'', Null, Str ''C'', Null, Null, Str ''O'', Null, Null,
          Str ''H'', Str ''H'', Null, Null, Null, Null, Null, Str ''C'']"]
  by simp

section \<open>The board keeps its 16 cells\<close>

text \<open>
  C8. On a board of 16 cells, \<open>rotateBoard\<close> with any number of turns, \<open>moveLeft\<close>,
  \<open>addRandomTile\<close> and \<open>move\<close> (accepted or rejected) each return a board of 16 cells, and
  so does every sequence of moves; every state reached from \<open>initializeGame\<close> by moves has
  a board of 16 cells.
\<close>

theorem board_length_invariant:
  "length b = 16 \<Longrightarrow>
     length (rotateBoard b n) = 16 \<and>
     length (fst (moveLeft sc b)) = 16 \<and>
     length (addRandomTile rnd b) = 16 \<and>
     length (board (move direction rnd \<lparr>board = b, score = sc, gameOver = g\<rparr>)) = 16 \<and>
     length (board (runMoves ms \<lparr>board = b, score = sc, gameOver = g\<rparr>)) = 16 \<and>
     length (board (runMoves ms (initializeGame rnd1 rnd2))) = 16"
  by (simp add: length_rotateBoard moveLeft_length addRandomTile_length move_length
      runMoves_length initializeGame_length)

theorem board_length_invariant_witness:
  "length ([Str ''H'', Str ''H'', Null, Str ''C''] @ replicate 12 Null) = 16 \<and>
   length (rotateBoard ([Str ''H'', Str ''H'', Null, Str ''C''] @ replicate 12 Null) 7) = 16 \<and>
   length (fst (moveLeft 0 ([Str ''H'', Str ''H'', Null, Str ''C''] @ replicate 12 Null))) = 16 \<and>
   length (addRandomTile 5 ([Str ''H'', Str ''H'', Null, Str ''C''] @ replicate 12 Null)) = 16 \<and>
   length (board (move ''ArrowLeft'' 5
     \<lparr>board = [Str ''H'', Str ''H'', Null, Str ''C''] @ replicate 12 Null, score = 0,
      gameOver = False\<rparr>)) = 16 \<and>
   length (board (runMoves [(''ArrowUp'', 2), (''ArrowRight'', 9)] (initializeGame 3 7))) = 16"
  using board_length_invariant
    [of "[Str ''H'', Str ''H'', Null, Str ''C''] @ replicate 12 Null" 7 0 5 "''ArrowLeft''" False
      "[(''ArrowUp'', 2), (''ArrowRight'', 9)]" 3 7]
  by simp

section \<open>The score never goes down\<close>

text \<open>
  C6. Over every sequence of moves the score at the end is at least the score at the
  start, and a move that makes the score strictly larger has performed at least one
  merge.
\<close>

theorem score_monotone:
  "score st \<le> score (runMoves ms st) \<and>
   (score st < score (move direction rnd st) \<longrightarrow> 0 < moveMerges direction st)"
  by (simp add: runMoves_score_mono move_score_needs_merge)

theorem score_monotone_witness:
  "score \<lparr>board = [Str ''H'', Str ''H'', Null, Null] @ replicate 12 Null, score = 0,
           gameOver = False\<rparr>
     < score (move ''ArrowLeft'' 0
         \<lparr>board = [Str ''H'', Str ''H'', Null, Null] @ replicate 12 Null, score = 0,
          gameOver = False\<rparr>) \<and>
   0 < moveMerges ''ArrowLeft''
         \<lparr>board = [Str ''H'', Str ''H'', Null, Null] @ replicate 12 Null, score = 0,
          gameOver = False\<rparr> \<and>
   score \<lparr>board = [Str ''H'', Str ''H'', Null, Null] @ replicate 12 Null, score = 0,
           gameOver = False\<rparr>
     \<le> score (runMoves [(''ArrowLeft'', 0), (''ArrowUp'', 3)]
         \<lparr>board = [Str ''H'', Str ''H'', Null, Null] @ replicate 12 Null, score = 0,
          gameOver = False\<rparr>)"
proof -
  let ?st = "\<lparr>board = [Str ''H'', Str ''H'', Null, Null] @ replicate 12 Null, score = 0,
              gameOver = False\<rparr>"
  have h: "score ?st < score (move ''ArrowLeft'' 0 ?st)"
    by code_simp
  show ?thesis
    using h score_monotone [of ?st "[(''ArrowLeft'', 0), (''ArrowUp'', 3)]" "''ArrowLeft''" 0]
    by blast
qed

end
